theory Spec2Isabelle
  imports Complex_Main
begin

section \<open>Data model\<close>

text \<open>
  The reference dataset of \<^verbatim>\<open>health.js\<close> is an array of plain objects. Gender and age unit
  are JavaScript strings and are compared with \<^verbatim>\<open>===\<close>, so they stay strings here: any unit
  other than \<^verbatim>\<open>"MONTH"\<close> is treated as years by the code. JavaScript numbers are modelled
  as exact reals (finite doubles without rounding error); the places where the code can
  produce \<^verbatim>\<open>NaN\<close> or an infinity are written out where they occur.
\<close>

record reference_record =
  gender :: string
  age :: real
  ageUnit :: string
  weight :: real
  height :: real
  ageType :: string

datatype growth_stage = INFANT | CHILD | ADOLESCENT

section \<open>Unit normalisation and growth stage\<close>

definition convertToMonths :: "real \<Rightarrow> string \<Rightarrow> real" where
  "convertToMonths a unit = (if unit = ''MONTH'' then a else a * 12)"

definition calculateGrowthStage :: "real \<Rightarrow> string \<Rightarrow> growth_stage" where
  "calculateGrowthStage a unit =
     (let months = convertToMonths a unit in
      if months < 24 then INFANT
      else if a \<ge> 6 then ADOLESCENT
      else CHILD)"

section \<open>Record resolver\<close>

text \<open>
  Every \<^verbatim>\<open>throw\<close> of the source is a value of \<open>error\<close>. \<open>TypeError\<close> stands for the
  exception JavaScript raises on a property access on \<^verbatim>\<open>undefined\<close> or \<^verbatim>\<open>null\<close>.
  The module variable \<^verbatim>\<open>childData\<close> is passed explicitly: \<open>None\<close> is the initial
  \<^verbatim>\<open>null\<close>, \<open>Some d\<close> a loaded array.
\<close>

datatype error =
    DatasetNotLoaded
  | NoCandidatesForGender string
  | TypeError

definition recordMonths :: "reference_record \<Rightarrow> real" where
  "recordMonths r = convertToMonths (age r) (ageUnit r)"

text \<open>
  The body of the \<^verbatim>\<open>forEach\<close> of \<open>findMatchByAge\<close>; the pair is
  (\<^verbatim>\<open>minAgeDiff\<close>, \<^verbatim>\<open>closestByAge\<close>).
\<close>

definition ageStep ::
  "real \<Rightarrow> real \<times> reference_record \<Rightarrow> reference_record \<Rightarrow> real \<times> reference_record" where
  "ageStep inputAgeMonths st r =
     (let minAgeDiff = fst st; closestByAge = snd st;
          recordAgeMonths = recordMonths r;
          ageDiff = \<bar>recordAgeMonths - inputAgeMonths\<bar> in
      if ageDiff < minAgeDiff then (ageDiff, r)
      else if ageDiff = minAgeDiff then
        (if recordAgeMonths > recordMonths closestByAge then (minAgeDiff, r)
         else (minAgeDiff, closestByAge))
      else (minAgeDiff, closestByAge))"

definition findMatchByAge ::
  "reference_record list option \<Rightarrow> string \<Rightarrow> real \<Rightarrow> string \<Rightarrow> error + reference_record" where
  "findMatchByAge childData g a unit =
     (case childData of
        None \<Rightarrow> Inl DatasetNotLoaded
      | Some d \<Rightarrow>
          if length d = 0 then Inl DatasetNotLoaded
          else
            (case filter (\<lambda>r. gender r = g) d of
               [] \<Rightarrow> Inl (NoCandidatesForGender g)
             | c0 # cs \<Rightarrow>
                 (let inputAgeMonths = convertToMonths a unit in
                  Inr (snd (foldl (ageStep inputAgeMonths)
                              (\<bar>recordMonths c0 - inputAgeMonths\<bar>, c0) (c0 # cs))))))"

text \<open>
  The weight scan is written twice in the source, identically, in
  \<open>findMatchByWeightAndHeight\<close> and in \<open>findClosestMatch\<close>; the pair is
  (\<^verbatim>\<open>minWeightDiff\<close>, \<^verbatim>\<open>closestByWeight\<close>).
\<close>

definition weightStep ::
  "real \<Rightarrow> real \<times> reference_record \<Rightarrow> reference_record \<Rightarrow> real \<times> reference_record" where
  "weightStep w st r =
     (let minWeightDiff = fst st; closestByWeight = snd st;
          weightDiff = \<bar>weight r - w\<bar> in
      if weightDiff < minWeightDiff then (weightDiff, r)
      else if weightDiff = minWeightDiff then
        (let currentMonths = recordMonths closestByWeight;
             candidateMonths = recordMonths r in
         if candidateMonths > currentMonths then (minWeightDiff, r)
         else (minWeightDiff, closestByWeight))
      else (minWeightDiff, closestByWeight))"

definition closestByWeightScan :: "reference_record \<Rightarrow> reference_record list \<Rightarrow> real \<Rightarrow> reference_record" where
  "closestByWeightScan c0 candidates w =
     snd (foldl (weightStep w) (\<bar>weight c0 - w\<bar>, c0) candidates)"

definition weightGroupOf :: "reference_record list \<Rightarrow> reference_record \<Rightarrow> reference_record list" where
  "weightGroupOf candidates closestByWeight =
     filter (\<lambda>r. \<bar>weight r - weight closestByWeight\<bar> < 0.1) candidates"

text \<open>
  \<^verbatim>\<open>record[metric]\<close> reads a field by its name; the three names the source passes or
  documents are the constructors of \<open>metric_key\<close>. \<^verbatim>\<open>unitMetric\<close> is only tested for
  truthiness: \<open>None\<close> is the default \<^verbatim>\<open>null\<close>, and the empty string is falsy as well.
\<close>

datatype metric_key = KeyAge | KeyHeight | KeyWeight

fun metricOf :: "metric_key \<Rightarrow> reference_record \<Rightarrow> real" where
  "metricOf KeyAge r = age r"
| "metricOf KeyHeight r = height r"
| "metricOf KeyWeight r = weight r"

definition truthyString :: "string option \<Rightarrow> bool" where
  "truthyString s = (case s of None \<Rightarrow> False | Some t \<Rightarrow> t \<noteq> [])"

definition groupStep ::
  "metric_key \<Rightarrow> real \<Rightarrow> string option \<Rightarrow> real \<times> reference_record \<Rightarrow> reference_record
     \<Rightarrow> real \<times> reference_record" where
  "groupStep metric v unitMetric st r =
     (let minDiff = fst st; closest = snd st;
          diff = \<bar>metricOf metric r - v\<bar> in
      if diff < minDiff then (diff, r)
      else if diff = minDiff \<and> truthyString unitMetric then
        (if metricOf metric r > metricOf metric closest then (minDiff, r)
         else (minDiff, closest))
      else (minDiff, closest))"

definition findClosestInGroup ::
  "reference_record list \<Rightarrow> metric_key \<Rightarrow> real \<Rightarrow> string option \<Rightarrow> error + reference_record" where
  "findClosestInGroup grp metric v unitMetric =
     (case grp of
        [] \<Rightarrow> Inl TypeError
      | c0 # cs \<Rightarrow>
          Inr (snd (foldl (groupStep metric v unitMetric)
                      (\<bar>metricOf metric c0 - v\<bar>, c0) (c0 # cs))))"

definition findMatchByWeightAndHeight ::
  "reference_record list option \<Rightarrow> string \<Rightarrow> real \<Rightarrow> real option \<Rightarrow> error + reference_record" where
  "findMatchByWeightAndHeight childData g w h =
     (case childData of
        None \<Rightarrow> Inl DatasetNotLoaded
      | Some d \<Rightarrow>
          if length d = 0 then Inl DatasetNotLoaded
          else
            (case filter (\<lambda>r. gender r = g) d of
               [] \<Rightarrow> Inl (NoCandidatesForGender g)
             | c0 # cs \<Rightarrow>
                 (let candidates = c0 # cs;
                      closestByWeight = closestByWeightScan c0 candidates w in
                  case h of
                    None \<Rightarrow> Inr closestByWeight
                  | Some hv \<Rightarrow>
                      (let weightGroup = weightGroupOf candidates closestByWeight in
                       if length weightGroup > 1
                       then findClosestInGroup weightGroup KeyHeight hv None
                       else Inr closestByWeight))))"

definition findClosestMatch ::
  "reference_record list option \<Rightarrow> string \<Rightarrow> real \<Rightarrow> real option \<Rightarrow> real option
     \<Rightarrow> error + reference_record" where
  "findClosestMatch childData g w a h =
     (case childData of
        None \<Rightarrow> Inl DatasetNotLoaded
      | Some d \<Rightarrow>
          if length d = 0 then Inl DatasetNotLoaded
          else
            (case filter (\<lambda>r. gender r = g) d of
               [] \<Rightarrow> Inl (NoCandidatesForGender g)
             | c0 # cs \<Rightarrow>
                 (let candidates = c0 # cs;
                      closestByWeight = closestByWeightScan c0 candidates w in
                  if a \<noteq> None \<or> h \<noteq> None then
                    (let weightGroup = weightGroupOf candidates closestByWeight in
                     if length weightGroup > 1 then
                       (case a of
                          Some av \<Rightarrow> findClosestInGroup weightGroup KeyAge av (Some ''ageUnit'')
                        | None \<Rightarrow>
                            (case h of
                               Some hv \<Rightarrow> findClosestInGroup weightGroup KeyHeight hv None
                             | None \<Rightarrow> Inr closestByWeight))
                     else Inr closestByWeight)
                  else Inr closestByWeight)))"

section \<open>Closeness scorer\<close>

text \<open>
  A percentage deviation divides by the expected value, which JavaScript does not guard:
  a zero divisor gives \<^verbatim>\<open>Infinity\<close>, or \<^verbatim>\<open>NaN\<close> for \<^verbatim>\<open>0/0\<close>. HOL's \<open>x / 0 = 0\<close>
  would hide that, so a deviation is a \<open>jsnum\<close>. Only the values that can arise are
  modelled: the numerator is an absolute value, so the infinity is the positive one
  (the expected value read from the dataset is taken not to be the negative zero).
\<close>

datatype jsnum = Fin real | PosInfinity | NaN

definition percentDeviation :: "real \<Rightarrow> real \<Rightarrow> jsnum" where
  "percentDeviation inputValue expected =
     (if expected = 0 then (if inputValue = 0 then NaN else PosInfinity)
      else Fin (\<bar>inputValue - expected\<bar> / expected * 100))"

fun meanDeviation :: "jsnum \<Rightarrow> jsnum \<Rightarrow> jsnum" where
  "meanDeviation (Fin a) (Fin b) = Fin ((a + b) / 2)"
| "meanDeviation NaN _ = NaN"
| "meanDeviation _ NaN = NaN"
| "meanDeviation _ _ = PosInfinity"

text \<open>\<^verbatim>\<open>Math.round\<close> rounds to the nearest integer, a half towards plus infinity.\<close>

definition mathRound :: "real \<Rightarrow> int" where
  "mathRound x = \<lfloor>x + 1 / 2\<rfloor>"

text \<open>
  The if-chain of \<open>calculateCloseness\<close>: the value of the variable \<^verbatim>\<open>closeness\<close> for
  a finite deviation, before it is clamped and rounded.
\<close>

definition closenessOfDeviation :: "real \<Rightarrow> real" where
  "closenessOfDeviation averageDeviation =
     (if averageDeviation \<le> 10 then 100
      else if averageDeviation \<le> 20 then 100 - (averageDeviation - 10) * 1
      else if averageDeviation \<le> 30 then 90 - (averageDeviation - 20) * 1.5
      else if averageDeviation \<le> 40 then 75 - (averageDeviation - 30) * 1.5
      else 60 - (averageDeviation - 40))"

text \<open>The returned \<^verbatim>\<open>Math.round(Math.max(0, closeness))\<close>.\<close>

definition deviationScore :: "real \<Rightarrow> int" where
  "deviationScore averageDeviation = mathRound (max 0 (closenessOfDeviation averageDeviation))"

text \<open>
  The score is an integer, or \<^verbatim>\<open>NaN\<close> when the deviation is \<^verbatim>\<open>NaN\<close> (every comparison
  is false, the last branch computes \<^verbatim>\<open>NaN\<close>, and \<^verbatim>\<open>Math.max\<close> and \<^verbatim>\<open>Math.round\<close>
  keep it). An infinite deviation takes the last branch to minus infinity, which
  \<^verbatim>\<open>Math.max(0, _)\<close> turns into 0.
\<close>

datatype score = Score int | ScoreNaN

fun scoreOf :: "jsnum \<Rightarrow> score" where
  "scoreOf (Fin d) = Score (deviationScore d)"
| "scoreOf PosInfinity = Score 0"
| "scoreOf NaN = ScoreNaN"

definition calculateCloseness :: "real \<Rightarrow> real option \<Rightarrow> reference_record option \<Rightarrow> score" where
  "calculateCloseness inputWeight inputHeight ageMatchedRecord =
     (case ageMatchedRecord of
        None \<Rightarrow> Score 0
      | Some rec \<Rightarrow>
          (let expectedWeight = weight rec;
               expectedHeight = height rec;
               weightDeviation = percentDeviation inputWeight expectedWeight;
               averageDeviation =
                 (case inputHeight of
                    None \<Rightarrow> weightDeviation
                  | Some ih \<Rightarrow>
                      meanDeviation weightDeviation (percentDeviation ih expectedHeight))
           in scoreOf averageDeviation))"

fun getClosenessLabel :: "score \<Rightarrow> string" where
  "getClosenessLabel (Score c) =
     (if c \<ge> 90 then ''Excellent match''
      else if c \<ge> 75 then ''Very close''
      else if c \<ge> 60 then ''Close match''
      else if c \<ge> 40 then ''Moderate''
      else ''Some difference'')"
| "getClosenessLabel ScoreNaN = ''Some difference''"

section \<open>Result formatting\<close>

text \<open>
  \<^verbatim>\<open>inputData.height\<close> as the form handler builds it is a parsed number (possibly
  \<^verbatim>\<open>NaN\<close>) or \<^verbatim>\<open>null\<close>; an object without the property reads as \<^verbatim>\<open>undefined\<close>, and
  \<open>validateInput\<close> also compares with the empty string. \<open>truthyNum\<close> is the number that
  \<^verbatim>\<open>v || null\<close> keeps: every falsy value becomes \<^verbatim>\<open>null\<close>.
\<close>

datatype opt_number = JNull | JUndefined | JEmptyString | JNum real | JNaN

fun falsy :: "opt_number \<Rightarrow> bool" where
  "falsy (JNum x) = (x = 0)"
| "falsy _ = True"

fun truthyNum :: "opt_number \<Rightarrow> real option" where
  "truthyNum (JNum x) = (if x = 0 then None else Some x)"
| "truthyNum _ = None"

record patient_age =
  ageValue :: real
  unit :: string

record patient_input =
  inGender :: string
  inWeight :: real
  inHeight :: opt_number
  inAge :: "patient_age option"

record formatted_input =
  fGender :: string
  fWeight :: real
  fHeight :: "real option"
  fAge :: "patient_age option"

record formatted_match =
  mGender :: string
  mWeight :: real
  mHeight :: real
  mAge :: real
  mAgeUnit :: string
  mAgeType :: string

record assessment_result =
  input :: formatted_input
  ageMatched :: formatted_match
  weightMatched :: formatted_match
  closeness :: score
  closenessLabel :: string

definition genderLabel :: "string \<Rightarrow> string" where
  "genderLabel g = (if g = ''BOY'' then ''Boy'' else ''Girl'')"

definition formatMatch :: "reference_record \<Rightarrow> formatted_match" where
  "formatMatch r =
     \<lparr> mGender = genderLabel (gender r), mWeight = weight r, mHeight = height r,
       mAge = age r, mAgeUnit = ageUnit r, mAgeType = ageType r \<rparr>"

text \<open>
  \<open>formatResult\<close> without the two \<^verbatim>\<open>ageLabel\<close> strings, which print a number into a
  template string. A \<^verbatim>\<open>null\<close> record makes \<^verbatim>\<open>ageMatchedRecord.gender\<close> raise after the
  closeness has been computed.
\<close>

definition formatResult ::
  "patient_input \<Rightarrow> reference_record option \<Rightarrow> reference_record option \<Rightarrow> error + assessment_result" where
  "formatResult inputData ageMatchedRecord weightMatchedRecord =
     (let c = calculateCloseness (inWeight inputData) (truthyNum (inHeight inputData))
                ageMatchedRecord in
      case ageMatchedRecord of
        None \<Rightarrow> Inl TypeError
      | Some am \<Rightarrow>
          (case weightMatchedRecord of
             None \<Rightarrow> Inl TypeError
           | Some wm \<Rightarrow>
               Inr \<lparr> input = \<lparr> fGender = genderLabel (inGender inputData),
                                 fWeight = inWeight inputData,
                                 fHeight = truthyNum (inHeight inputData),
                                 fAge = inAge inputData \<rparr>,
                     ageMatched = formatMatch am,
                     weightMatched = formatMatch wm,
                     closeness = c,
                     closenessLabel = getClosenessLabel c \<rparr>))"

section \<open>Input validation\<close>

text \<open>
  \<open>validateInput\<close> receives what the form handler read: the gender of the checked radio
  button (\<^verbatim>\<open>undefined\<close> when none is), \<^verbatim>\<open>parseFloat\<close> of the weight field, the height
  as a parsed number or \<^verbatim>\<open>null\<close>, and the age as the selected string. \<open>None\<close> is
  \<^verbatim>\<open>null\<close> or \<^verbatim>\<open>undefined\<close> for the two strings. A default parameter turns an
  \<^verbatim>\<open>undefined\<close> height into \<^verbatim>\<open>null\<close>.
\<close>

definition validateInput ::
  "string option \<Rightarrow> opt_number \<Rightarrow> opt_number \<Rightarrow> string option \<Rightarrow> string list" where
  "validateInput g w h a =
     (if \<not> truthyString g then [''Gender is required''] else [])
     @ (case w of
          JNum x \<Rightarrow>
            if x = 0 then [''Weight is required'']
            else if x < 0.01 \<or> x > 150 then [''Weight must be between 0.01 and 150 kg'']
            else []
        | _ \<Rightarrow> [''Weight is required''])
     @ (if \<not> truthyString a then [''Age is required''] else [])
     @ (case h of
          JNull \<Rightarrow> []
        | JUndefined \<Rightarrow> []
        | JEmptyString \<Rightarrow> []
        | JNaN \<Rightarrow> [''Height must be a valid number'']
        | JNum x \<Rightarrow>
            if x < 0.01 \<or> x > 220 then [''Height must be between 0.01 and 220 cm'']
            else [])"

section \<open>Z-score curve lookup\<close>

text \<open>
  The z-score dataset has the keys \<^verbatim>\<open>infant\<close>, \<^verbatim>\<open>child\<close>, \<^verbatim>\<open>adolescent\<close> and
  \<^verbatim>\<open>strategy\<close>. The stage names are the keys, so they are a datatype of their own.
  The strategy entries are only tested for presence. The adolescent partition is an array
  whose first element is the array of entries (\<^verbatim>\<open>zScoreData.adolescent[0]\<close>), the other
  two are arrays of entries; a partition that is missing makes the lookup raise, which is
  the \<open>None\<close> of the partition fields.
\<close>

datatype zstage = Infant | Child | Adolescent

record zvalues =
  zm2 :: "real option"
  zm1 :: "real option"
  z0 :: "real option"
  zp1 :: "real option"
  zp2 :: "real option"

record zscore_entry =
  zAge :: real
  zGender :: string
  weightZ :: "zvalues option"
  heightZ :: "zvalues option"
  bmiZ :: "zvalues option"
  medianHeight :: "real option"

record zscore_data =
  strategy :: "zstage \<Rightarrow> bool"
  infant :: "zscore_entry list option"
  child :: "zscore_entry list option"
  adolescent :: "zscore_entry list list option"

definition determineGrowthStage :: "real \<Rightarrow> string \<Rightarrow> zstage" where
  "determineGrowthStage a u =
     (let ageMonths = convertToMonths a u in
      if ageMonths < 24 then Infant
      else (let ageYears = ageMonths / 12 in
            if ageYears < 10 then Child else Adolescent))"

text \<open>
  \<^verbatim>\<open>zScoreData[growthStage]\<close>, with the adolescent array replaced by its first element.
  Reading \<^verbatim>\<open>[0]\<close> of an empty array gives \<^verbatim>\<open>undefined\<close>, and \<^verbatim>\<open>.find\<close> on
  \<^verbatim>\<open>undefined\<close> raises.
\<close>

definition dataSourceOf :: "zscore_data \<Rightarrow> zstage \<Rightarrow> error + zscore_entry list" where
  "dataSourceOf zd st =
     (case st of
        Infant \<Rightarrow> (case infant zd of None \<Rightarrow> Inl TypeError | Some es \<Rightarrow> Inr es)
      | Child \<Rightarrow> (case child zd of None \<Rightarrow> Inl TypeError | Some es \<Rightarrow> Inr es)
      | Adolescent \<Rightarrow>
          (case adolescent zd of
             None \<Rightarrow> Inl TypeError
           | Some [] \<Rightarrow> Inl TypeError
           | Some (es # _) \<Rightarrow> Inr es))"

definition zScorePropOf :: "zstage \<Rightarrow> string \<Rightarrow> zscore_entry \<Rightarrow> zvalues option" where
  "zScorePropOf st metric e =
     (if st = Adolescent then bmiZ e
      else if metric = ''weight'' then weightZ e
      else if metric = ''height'' then heightZ e
      else None)"

text \<open>
  The result \<open>None\<close> is the empty object \<^verbatim>\<open>{}\<close>; otherwise the five curve values are
  copied, which is the identity on \<open>zvalues\<close>.
\<close>

definition getZScoreCurves ::
  "zscore_data option \<Rightarrow> string \<Rightarrow> real \<Rightarrow> string \<Rightarrow> string \<Rightarrow> error + zvalues option" where
  "getZScoreCurves zScoreData g a u metric =
     (case zScoreData of
        None \<Rightarrow> Inr None
      | Some zd \<Rightarrow>
          (let growthStage = determineGrowthStage a u in
           if \<not> strategy zd growthStage then Inr None
           else
             (case dataSourceOf zd growthStage of
                Inl e \<Rightarrow> Inl e
              | Inr dataSource \<Rightarrow>
                  (let ageValue = (if u = ''MONTH'' then a else real_of_int (mathRound a)) in
                   case find (\<lambda>e. zAge e = ageValue \<and> zGender e = g) dataSource of
                     None \<Rightarrow> Inr None
                   | Some zScoreEntry \<Rightarrow> Inr (zScorePropOf growthStage metric zScoreEntry)))))"

definition getMedianHeightForAge ::
  "zscore_data option \<Rightarrow> string \<Rightarrow> real \<Rightarrow> string \<Rightarrow> real option" where
  "getMedianHeightForAge zScoreData g a u =
     (case zScoreData of
        None \<Rightarrow> None
      | Some zd \<Rightarrow>
          (case adolescent zd of
             None \<Rightarrow> None
           | Some [] \<Rightarrow> None
           | Some (adolescentData # _) \<Rightarrow>
               (let ageYears = (if u = ''MONTH'' then a / 12 else a) in
                case find (\<lambda>e. zAge e = real_of_int (mathRound ageYears) \<and> zGender e = g)
                       adolescentData of
                  None \<Rightarrow> None
                | Some entry \<Rightarrow> medianHeight entry)))"

section \<open>Derived notions used in the statements\<close>

text \<open>The gender-filtered candidates of a dataset, as each resolver computes them.\<close>

definition candidatesFor :: "reference_record list \<Rightarrow> string \<Rightarrow> reference_record list" where
  "candidatesFor d g = filter (\<lambda>r. gender r = g) d"

section \<open>Example records\<close>

text \<open>A small dataset on which the statements below are exercised.\<close>

definition sampleBoy6m :: reference_record where
  "sampleBoy6m = \<lparr>gender = ''BOY'', age = 6, ageUnit = ''MONTH'', weight = 7.9, height = 67.6,
     ageType = ''INFANT''\<rparr>"

definition sampleBoy1y :: reference_record where
  "sampleBoy1y = \<lparr>gender = ''BOY'', age = 1, ageUnit = ''YEAR'', weight = 9.6, height = 75.7,
     ageType = ''INFANT''\<rparr>"

definition sampleGirl6m :: reference_record where
  "sampleGirl6m = \<lparr>gender = ''GIRL'', age = 6, ageUnit = ''MONTH'', weight = 7.3, height = 65.7,
     ageType = ''INFANT''\<rparr>"

text \<open>Two records of equal weight, at the same distance from a height of 65 cm.\<close>

definition tieBoy4m :: reference_record where
  "tieBoy4m = \<lparr>gender = ''BOY'', age = 4, ageUnit = ''MONTH'', weight = 6, height = 60,
     ageType = ''INFANT''\<rparr>"

definition tieBoy5m :: reference_record where
  "tieBoy5m = \<lparr>gender = ''BOY'', age = 5, ageUnit = ''MONTH'', weight = 6, height = 70,
     ageType = ''INFANT''\<rparr>"

definition sampleData :: "reference_record list" where
  "sampleData = [sampleGirl6m, sampleBoy6m, sampleBoy1y]"

text \<open>A z-score dataset with one adolescent entry, indexed by the age in years.\<close>

definition sampleBmiCurves :: zvalues where
  "sampleBmiCurves = \<lparr>zm2 = Some 13.7, zm1 = Some 14.9, z0 = Some 16.4, zp1 = Some 18.5,
     zp2 = Some 21.4\<rparr>"

definition sampleAdolescentEntry :: zscore_entry where
  "sampleAdolescentEntry = \<lparr>zAge = 10, zGender = ''BOY'', weightZ = None, heightZ = None,
     bmiZ = Some sampleBmiCurves, medianHeight = Some 137.8\<rparr>"

definition sampleZScoreData :: zscore_data where
  "sampleZScoreData = \<lparr>strategy = (\<lambda>_. True), infant = Some [], child = Some [],
     adolescent = Some [[sampleAdolescentEntry]]\<rparr>"

section \<open>Growth stage, rule (a)\<close>

text \<open>
  C1 (as stated, refuted): the claim says that age 72 with unit MONTH is never classified
  ADOLESCENT by \<open>calculateGrowthStage\<close>. The code compares the raw age 72 with 6, so the
  result is ADOLESCENT.
\<close>

theorem C1_counterexample:
  "\<not> (calculateGrowthStage 72 ''MONTH'' \<noteq> ADOLESCENT)"
  by (simp add: calculateGrowthStage_def convertToMonths_def)

text \<open>
  C1 (amended): under rule (a) an age of 72 months or more is classified ADOLESCENT, and
  so is the same age written in years; in particular 72 months and 6 years are both
  ADOLESCENT.
\<close>

theorem C1_six_years_in_months_adolescent:
  "72 \<le> a \<Longrightarrow>
     calculateGrowthStage a ''MONTH'' = ADOLESCENT
   \<and> calculateGrowthStage (a / 12) ''YEAR'' = ADOLESCENT"
  by (simp add: calculateGrowthStage_def convertToMonths_def)

theorem C1_six_years_in_months_adolescent_witness:
  "(72::real) \<le> 72
 \<and> calculateGrowthStage 72 ''MONTH'' = ADOLESCENT
 \<and> calculateGrowthStage 6 ''YEAR'' = ADOLESCENT"
  using C1_six_years_in_months_adolescent [of 72] by simp

section \<open>Properties of the age scan\<close>

lemma ageStep_cases:
  "ageStep q st r = st \<or> ageStep q st r = (fst st, r) \<and> \<bar>recordMonths r - q\<bar> = fst st
     \<or> ageStep q st r = (\<bar>recordMonths r - q\<bar>, r) \<and> \<bar>recordMonths r - q\<bar> < fst st"
  by (cases st) (simp add: ageStep_def Let_def)

lemma ageStep_fold_mem:
  "snd st \<in> A \<Longrightarrow> set xs \<subseteq> A \<Longrightarrow> snd (foldl (ageStep q) st xs) \<in> A"
proof (induction xs arbitrary: st)
  case Nil
  then show ?case by simp
next
  case (Cons x xs)
  have "snd (ageStep q st x) \<in> A"
    using ageStep_cases [of q st x] Cons.prems by auto
  then show ?case using Cons by simp
qed

lemma ageStep_fold_key:
  "fst st = \<bar>recordMonths (snd st) - q\<bar> \<Longrightarrow>
   fst (foldl (ageStep q) st xs) = \<bar>recordMonths (snd (foldl (ageStep q) st xs)) - q\<bar>"
proof (induction xs arbitrary: st)
  case Nil
  then show ?case by simp
next
  case (Cons x xs)
  have "fst (ageStep q st x) = \<bar>recordMonths (snd (ageStep q st x)) - q\<bar>"
    using ageStep_cases [of q st x] Cons.prems by auto
  then show ?case using Cons.IH by simp
qed

lemma ageStep_le: "fst (ageStep q st r) \<le> fst st \<and> fst (ageStep q st r) \<le> \<bar>recordMonths r - q\<bar>"
  by (cases st) (simp add: ageStep_def Let_def)

lemma ageStep_fold_le_init: "fst (foldl (ageStep q) st xs) \<le> fst st"
proof (induction xs arbitrary: st)
  case Nil
  then show ?case by simp
next
  case (Cons x xs)
  have "fst (foldl (ageStep q) (ageStep q st x) xs) \<le> fst (ageStep q st x)"
    by (rule Cons.IH)
  also have "\<dots> \<le> fst st" using ageStep_le by blast
  finally show ?case by simp
qed

lemma ageStep_fold_min:
  "x \<in> set xs \<Longrightarrow> fst (foldl (ageStep q) st xs) \<le> \<bar>recordMonths x - q\<bar>"
proof (induction xs arbitrary: st)
  case Nil
  then show ?case by simp
next
  case (Cons y ys)
  show ?case
  proof (cases "x = y")
    case True
    have "fst (foldl (ageStep q) (ageStep q st y) ys) \<le> fst (ageStep q st y)"
      by (rule ageStep_fold_le_init)
    also have "\<dots> \<le> \<bar>recordMonths y - q\<bar>" using ageStep_le by blast
    finally show ?thesis using True by simp
  next
    case False
    then have "x \<in> set ys" using Cons.prems by simp
    then show ?thesis using Cons.IH by simp
  qed
qed

section \<open>Idempotence of the age match\<close>

text \<open>
  C6: querying \<open>findMatchByAge\<close> with the gender, age and unit of a record of the dataset
  returns that record, provided no other record of the same gender has the same age in
  months: the record has age difference zero, and the scan keeps a minimal difference.
\<close>

theorem C6_findMatchByAge_idempotent:
  assumes mem: "r \<in> set d"
    and uniq: "\<forall>x\<in>set d. gender x = gender r \<and> recordMonths x = recordMonths r \<longrightarrow> x = r"
  shows "findMatchByAge (Some d) (gender r) (age r) (ageUnit r) = Inr r"
proof -
  let ?q = "convertToMonths (age r) (ageUnit r)"
  let ?cands = "filter (\<lambda>x. gender x = gender r) d"
  have rc: "r \<in> set ?cands" using mem by simp
  then obtain c0 cs where cs: "?cands = c0 # cs" by (cases ?cands) auto
  let ?st = "foldl (ageStep ?q) (\<bar>recordMonths c0 - ?q\<bar>, c0) (c0 # cs)"
  have res: "findMatchByAge (Some d) (gender r) (age r) (ageUnit r) = Inr (snd ?st)"
    using mem cs by (auto simp: findMatchByAge_def Let_def)
  have m: "snd ?st \<in> set ?cands"
    unfolding cs by (rule ageStep_fold_mem) auto
  have "fst ?st \<le> \<bar>recordMonths r - ?q\<bar>"
    using rc unfolding cs by (rule ageStep_fold_min)
  moreover have "fst ?st = \<bar>recordMonths (snd ?st) - ?q\<bar>"
    by (rule ageStep_fold_key) simp
  ultimately have "recordMonths (snd ?st) = recordMonths r"
    by (simp add: recordMonths_def)
  moreover have "gender (snd ?st) = gender r" "snd ?st \<in> set d" using m by auto
  ultimately have "snd ?st = r" using uniq by blast
  then show ?thesis using res by simp
qed


theorem C6_findMatchByAge_idempotent_witness:
  "findMatchByAge
     (Some [\<lparr>gender = ''BOY'', age = 6, ageUnit = ''MONTH'', weight = 7.9, height = 67.6, ageType = ''INFANT''\<rparr>,
            \<lparr>gender = ''BOY'', age = 1, ageUnit = ''YEAR'', weight = 9.6, height = 75.7, ageType = ''INFANT''\<rparr>])
     ''BOY'' 6 ''MONTH''
   = Inr \<lparr>gender = ''BOY'', age = 6, ageUnit = ''MONTH'', weight = 7.9, height = 67.6, ageType = ''INFANT''\<rparr>"
  using C6_findMatchByAge_idempotent
    [of "\<lparr>gender = ''BOY'', age = 6, ageUnit = ''MONTH'', weight = 7.9, height = 67.6, ageType = ''INFANT''\<rparr>"
        "[\<lparr>gender = ''BOY'', age = 6, ageUnit = ''MONTH'', weight = 7.9, height = 67.6, ageType = ''INFANT''\<rparr>,
          \<lparr>gender = ''BOY'', age = 1, ageUnit = ''YEAR'', weight = 9.6, height = 75.7, ageType = ''INFANT''\<rparr>]"]
  by (simp add: recordMonths_def convertToMonths_def)

section \<open>Every resolver returns a gender-filtered record of the dataset\<close>

lemma findMatchByAge_Inr:
  "findMatchByAge cd g a u = Inr r \<Longrightarrow> \<exists>d. cd = Some d \<and> r \<in> set (candidatesFor d g)"
proof -
  assume h: "findMatchByAge cd g a u = Inr r"
  then obtain d where d: "cd = Some d" "d \<noteq> []"
    by (cases cd) (auto simp: findMatchByAge_def split: if_splits)
  then obtain c0 cs where cs: "filter (\<lambda>r. gender r = g) d = c0 # cs"
    using h by (cases "filter (\<lambda>r. gender r = g) d") (auto simp: findMatchByAge_def)
  have "r = snd (foldl (ageStep (convertToMonths a u)) (\<bar>recordMonths c0 - convertToMonths a u\<bar>, c0) (c0 # cs))"
    using h d cs by (simp add: findMatchByAge_def Let_def)
  moreover have "snd (foldl (ageStep (convertToMonths a u)) (\<bar>recordMonths c0 - convertToMonths a u\<bar>, c0) (c0 # cs)) \<in> set (c0 # cs)"
    by (rule ageStep_fold_mem) auto
  ultimately have "r \<in> set (c0 # cs)" by (simp only:)
  then have "r \<in> set (candidatesFor d g)" by (simp only: candidatesFor_def cs)
  then show ?thesis using d by blast
qed



lemma weightStep_cases:
  "weightStep w st r = st \<or> snd (weightStep w st r) = r"
  by (cases st) (simp add: weightStep_def Let_def)

lemma weightStep_fold_mem:
  "snd st \<in> A \<Longrightarrow> set xs \<subseteq> A \<Longrightarrow> snd (foldl (weightStep w) st xs) \<in> A"
proof (induction xs arbitrary: st)
  case Nil
  then show ?case by simp
next
  case (Cons x xs)
  have "snd (weightStep w st x) \<in> A"
    using weightStep_cases [of w st x] Cons.prems by auto
  then show ?case using Cons by simp
qed

lemma closestByWeightScan_mem: "closestByWeightScan c0 (c0 # cs) w \<in> set (c0 # cs)"
  unfolding closestByWeightScan_def by (rule weightStep_fold_mem) auto

lemma groupStep_cases:
  "groupStep m v t st r = st \<or> snd (groupStep m v t st r) = r"
  by (cases st) (simp add: groupStep_def Let_def)

lemma groupStep_fold_mem:
  "snd st \<in> A \<Longrightarrow> set xs \<subseteq> A \<Longrightarrow> snd (foldl (groupStep m v t) st xs) \<in> A"
proof (induction xs arbitrary: st)
  case Nil
  then show ?case by simp
next
  case (Cons x xs)
  have "snd (groupStep m v t st x) \<in> A"
    using groupStep_cases [of m v t st x] Cons.prems by auto
  then show ?case using Cons by simp
qed

lemma findClosestInGroup_mem:
  "findClosestInGroup grp m v t = Inr r \<Longrightarrow> r \<in> set grp"
proof (cases grp)
  case Nil
  assume "findClosestInGroup grp m v t = Inr r"
  then show ?thesis using Nil by (simp add: findClosestInGroup_def)
next
  case (Cons c0 cs)
  assume "findClosestInGroup grp m v t = Inr r"
  then have "r = snd (foldl (groupStep m v t) (\<bar>metricOf m c0 - v\<bar>, c0) (c0 # cs))"
    using Cons by (simp add: findClosestInGroup_def)
  moreover have "snd (foldl (groupStep m v t) (\<bar>metricOf m c0 - v\<bar>, c0) (c0 # cs)) \<in> set (c0 # cs)"
    by (rule groupStep_fold_mem) auto
  ultimately show ?thesis using Cons by (simp only:)
qed

lemma weightGroupOf_subset: "set (weightGroupOf cands sel) \<subseteq> set cands"
  by (auto simp: weightGroupOf_def)

lemma findMatchByWeightAndHeight_Inr:
  assumes h: "findMatchByWeightAndHeight cd g w hh = Inr r"
  shows "\<exists>d. cd = Some d \<and> r \<in> set (candidatesFor d g)"
proof -
  obtain d where d: "cd = Some d" "d \<noteq> []"
    using h by (cases cd) (auto simp: findMatchByWeightAndHeight_def split: if_splits)
  obtain c0 cs where cs: "filter (\<lambda>r. gender r = g) d = c0 # cs"
    using h d by (cases "filter (\<lambda>r. gender r = g) d") (auto simp: findMatchByWeightAndHeight_def)
  let ?sel = "closestByWeightScan c0 (c0 # cs) w"
  let ?grp = "weightGroupOf (c0 # cs) ?sel"
  have sel: "?sel \<in> set (c0 # cs)" by (rule closestByWeightScan_mem)
  have "r = ?sel \<or> (\<exists>hv. findClosestInGroup ?grp KeyHeight hv None = Inr r)"
    using h d cs by (auto simp: findMatchByWeightAndHeight_def Let_def split: option.splits if_splits)
  then have "r \<in> set (c0 # cs)"
    using sel findClosestInGroup_mem weightGroupOf_subset by blast
  then have "r \<in> set (candidatesFor d g)" by (simp only: candidatesFor_def cs)
  then show ?thesis using d by blast
qed

lemma findClosestMatch_Inr:
  assumes h: "findClosestMatch cd g w a hh = Inr r"
  shows "\<exists>d. cd = Some d \<and> r \<in> set (candidatesFor d g)"
proof -
  obtain d where d: "cd = Some d" "d \<noteq> []"
    using h by (cases cd) (auto simp: findClosestMatch_def split: if_splits)
  obtain c0 cs where cs: "filter (\<lambda>r. gender r = g) d = c0 # cs"
    using h d by (cases "filter (\<lambda>r. gender r = g) d") (auto simp: findClosestMatch_def)
  let ?sel = "closestByWeightScan c0 (c0 # cs) w"
  let ?grp = "weightGroupOf (c0 # cs) ?sel"
  have sel: "?sel \<in> set (c0 # cs)" by (rule closestByWeightScan_mem)
  have "r = ?sel \<or> (\<exists>k v t. findClosestInGroup ?grp k v t = Inr r)"
    using h d cs by (auto simp: findClosestMatch_def Let_def split: option.splits if_splits)
  then have "r \<in> set (c0 # cs)"
    using sel findClosestInGroup_mem weightGroupOf_subset by blast
  then have "r \<in> set (candidatesFor d g)" by (simp only: candidatesFor_def cs)
  then show ?thesis using d by blast
qed

section \<open>Failure conditions of the resolvers\<close>

lemma findClosestInGroup_total:
  "grp \<noteq> [] \<Longrightarrow> \<exists>r. findClosestInGroup grp m v t = Inr r"
  by (cases grp) (simp_all add: findClosestInGroup_def)

lemma length_gt1_nonempty: "1 < length xs \<Longrightarrow> xs \<noteq> []"
  by auto

lemma findMatchByAge_total:
  "d \<noteq> [] \<Longrightarrow> candidatesFor d g \<noteq> [] \<Longrightarrow> \<exists>r. findMatchByAge (Some d) g a u = Inr r"
  by (cases "filter (\<lambda>r. gender r = g) d")
     (simp_all add: findMatchByAge_def candidatesFor_def Let_def)

lemma findMatchByWeightAndHeight_total:
  assumes "d \<noteq> []" "candidatesFor d g \<noteq> []"
  shows "\<exists>r. findMatchByWeightAndHeight (Some d) g w hh = Inr r"
proof -
  obtain c0 cs where cs: "filter (\<lambda>r. gender r = g) d = c0 # cs"
    using assms by (cases "filter (\<lambda>r. gender r = g) d") (auto simp: candidatesFor_def)
  show ?thesis
  proof (cases hh)
    case None
    then show ?thesis using assms cs by (simp add: findMatchByWeightAndHeight_def Let_def)
  next
    case (Some hv)
    let ?grp = "weightGroupOf (c0 # cs) (closestByWeightScan c0 (c0 # cs) w)"
    show ?thesis
    proof (cases "1 < length ?grp")
      case True
      then obtain r where "findClosestInGroup ?grp KeyHeight hv None = Inr r"
        using findClosestInGroup_total length_gt1_nonempty by blast
      then show ?thesis
        using assms cs Some True by (simp add: findMatchByWeightAndHeight_def Let_def)
    next
      case False
      then show ?thesis
        using assms cs Some by (simp add: findMatchByWeightAndHeight_def Let_def)
    qed
  qed
qed

lemma findClosestMatch_total:
  assumes "d \<noteq> []" "candidatesFor d g \<noteq> []"
  shows "\<exists>r. findClosestMatch (Some d) g w a hh = Inr r"
proof -
  obtain c0 cs where cs: "filter (\<lambda>r. gender r = g) d = c0 # cs"
    using assms by (cases "filter (\<lambda>r. gender r = g) d") (auto simp: candidatesFor_def)
  let ?grp = "weightGroupOf (c0 # cs) (closestByWeightScan c0 (c0 # cs) w)"
  show ?thesis
  proof (cases "1 < length ?grp")
    case True
    then have ne: "?grp \<noteq> []" by (rule length_gt1_nonempty)
    have "\<exists>r. findClosestInGroup ?grp k v t = Inr r" for k v t
      using ne by (rule findClosestInGroup_total)
    then show ?thesis
      using assms cs True
      by (cases a; cases hh) (simp_all add: findClosestMatch_def Let_def)
  next
    case False
    then show ?thesis
      using assms cs
      by (cases a; cases hh) (simp_all add: findClosestMatch_def Let_def)
  qed
qed

lemma findMatchByAge_errors:
  "findMatchByAge None g a u = Inl DatasetNotLoaded"
  "findMatchByAge (Some []) g a u = Inl DatasetNotLoaded"
  "d \<noteq> [] \<Longrightarrow> candidatesFor d g = [] \<Longrightarrow> findMatchByAge (Some d) g a u = Inl (NoCandidatesForGender g)"
  by (simp_all add: findMatchByAge_def candidatesFor_def)

lemma findMatchByWeightAndHeight_errors:
  "findMatchByWeightAndHeight None g w hh = Inl DatasetNotLoaded"
  "findMatchByWeightAndHeight (Some []) g w hh = Inl DatasetNotLoaded"
  "d \<noteq> [] \<Longrightarrow> candidatesFor d g = [] \<Longrightarrow>
     findMatchByWeightAndHeight (Some d) g w hh = Inl (NoCandidatesForGender g)"
  by (simp_all add: findMatchByWeightAndHeight_def candidatesFor_def)

lemma findClosestMatch_errors:
  "findClosestMatch None g w a hh = Inl DatasetNotLoaded"
  "findClosestMatch (Some []) g w a hh = Inl DatasetNotLoaded"
  "d \<noteq> [] \<Longrightarrow> candidatesFor d g = [] \<Longrightarrow>
     findClosestMatch (Some d) g w a hh = Inl (NoCandidatesForGender g)"
  by (simp_all add: findClosestMatch_def candidatesFor_def)

text \<open>
  C2 (as stated, refuted): the claim separates a loaded but empty dataset from an unloaded
  one. The guard \<^verbatim>\<open>!childData || childData.length === 0\<close> of each resolver raises
  "Child data not loaded" for the empty array as well, before any gender filtering.
\<close>

theorem C2_counterexample:
  "findMatchByAge (Some []) ''BOY'' 6 ''MONTH'' = Inl DatasetNotLoaded
 \<and> findMatchByAge (Some []) ''BOY'' 6 ''MONTH'' \<noteq> Inl (NoCandidatesForGender ''BOY'')
 \<and> findMatchByWeightAndHeight (Some []) ''BOY'' 7 None = Inl DatasetNotLoaded
 \<and> findClosestMatch (Some []) ''BOY'' 7 None None = Inl DatasetNotLoaded"
  by (simp add: findMatchByAge_def findMatchByWeightAndHeight_def findClosestMatch_def)

text \<open>
  C2 (amended): each of \<open>findMatchByAge\<close>, \<open>findMatchByWeightAndHeight\<close> and
  \<open>findClosestMatch\<close> raises the not-loaded error exactly when the dataset is \<^verbatim>\<open>null\<close> or
  an empty array, and raises the no-data-for-gender error exactly when the dataset is a
  non-empty array without a record of the requested gender.
\<close>

theorem C2_resolver_errors:
  "(findMatchByAge cd g a u = Inl DatasetNotLoaded \<longleftrightarrow> cd = None \<or> cd = Some [])
 \<and> (findMatchByAge cd g a u = Inl (NoCandidatesForGender g)
      \<longleftrightarrow> (\<exists>d. cd = Some d \<and> d \<noteq> [] \<and> candidatesFor d g = []))
 \<and> (findMatchByWeightAndHeight cd g w hh = Inl DatasetNotLoaded \<longleftrightarrow> cd = None \<or> cd = Some [])
 \<and> (findMatchByWeightAndHeight cd g w hh = Inl (NoCandidatesForGender g)
      \<longleftrightarrow> (\<exists>d. cd = Some d \<and> d \<noteq> [] \<and> candidatesFor d g = []))
 \<and> (findClosestMatch cd g w aa hh = Inl DatasetNotLoaded \<longleftrightarrow> cd = None \<or> cd = Some [])
 \<and> (findClosestMatch cd g w aa hh = Inl (NoCandidatesForGender g)
      \<longleftrightarrow> (\<exists>d. cd = Some d \<and> d \<noteq> [] \<and> candidatesFor d g = []))"
proof -
  consider "cd = None \<or> cd = Some []"
    | d where "cd = Some d" "d \<noteq> []" "candidatesFor d g = []"
    | d where "cd = Some d" "d \<noteq> []" "candidatesFor d g \<noteq> []"
    by (cases cd) auto
  then show ?thesis
  proof cases
  case 1
  then show ?thesis
    by (auto simp: findMatchByAge_errors findMatchByWeightAndHeight_errors findClosestMatch_errors)
next
  case (2 d)
  then show ?thesis
    by (simp add: findMatchByAge_errors findMatchByWeightAndHeight_errors findClosestMatch_errors)
next
  case (3 d)
  obtain r1 r2 r3 where
    "findMatchByAge cd g a u = Inr r1"
    "findMatchByWeightAndHeight cd g w hh = Inr r2"
    "findClosestMatch cd g w aa hh = Inr r3"
    using 3 findMatchByAge_total findMatchByWeightAndHeight_total findClosestMatch_total
    by metis
  then show ?thesis using 3 by simp
qed
qed

theorem C2_resolver_errors_witness:
  "findMatchByAge (Some [sampleBoy6m]) ''GIRL'' 6 ''MONTH'' = Inl (NoCandidatesForGender ''GIRL'')
 \<and> findMatchByWeightAndHeight (Some [sampleBoy6m]) ''GIRL'' 7 None = Inl (NoCandidatesForGender ''GIRL'')
 \<and> findClosestMatch (Some [sampleBoy6m]) ''GIRL'' 7 None None = Inl (NoCandidatesForGender ''GIRL'')
 \<and> findMatchByAge None ''GIRL'' 6 ''MONTH'' = Inl DatasetNotLoaded
 \<and> findMatchByAge (Some []) ''GIRL'' 6 ''MONTH'' = Inl DatasetNotLoaded"
  using C2_resolver_errors [where cd = "Some [sampleBoy6m]" and g = "''GIRL''" and a = 6 and u = "''MONTH''"
        and w = 7 and hh = None and aa = None]
    C2_resolver_errors [where cd = None and g = "''GIRL''" and a = 6 and u = "''MONTH''"]
    C2_resolver_errors [where cd = "Some []" and g = "''GIRL''" and a = 6 and u = "''MONTH''"]
  by (simp add: candidatesFor_def sampleBoy6m_def)

section \<open>Tie-break of the age match\<close>

text \<open>
  C7: when the gender-filtered candidates are exactly two records, equidistant in months
  from the query and with distinct ages in months, \<open>findMatchByAge\<close> returns the one with
  the larger age in months, whichever of the two comes first in the dataset.
\<close>

theorem C7_tie_break_order_independent:
  assumes c1: "candidatesFor d1 g = [x, y]"
    and c2: "candidatesFor d2 g = [y, x]"
    and eq: "\<bar>recordMonths x - convertToMonths a u\<bar> = \<bar>recordMonths y - convertToMonths a u\<bar>"
    and ne: "recordMonths x \<noteq> recordMonths y"
  shows "findMatchByAge (Some d1) g a u = Inr (if recordMonths x > recordMonths y then x else y)
       \<and> findMatchByAge (Some d2) g a u = Inr (if recordMonths x > recordMonths y then x else y)"
proof -
  have n1: "d1 \<noteq> []" and n2: "d2 \<noteq> []"
    using c1 c2 by (auto simp: candidatesFor_def)
  show ?thesis
    using c1 c2 eq ne n1 n2
    by (auto simp: findMatchByAge_def candidatesFor_def ageStep_def Let_def)
qed

theorem C7_tie_break_order_independent_witness:
  "findMatchByAge (Some [sampleGirl6m, sampleBoy6m, sampleBoy1y]) ''BOY'' 9 ''MONTH'' = Inr sampleBoy1y
 \<and> findMatchByAge (Some [sampleBoy1y, sampleGirl6m, sampleBoy6m]) ''BOY'' 9 ''MONTH'' = Inr sampleBoy1y"
  using C7_tie_break_order_independent
    [where ?d1.0 = "[sampleGirl6m, sampleBoy6m, sampleBoy1y]"
       and ?d2.0 = "[sampleBoy1y, sampleGirl6m, sampleBoy6m]"
       and g = "''BOY''" and x = sampleBoy6m and y = sampleBoy1y and a = 9 and u = "''MONTH''"]
  by (simp add: candidatesFor_def sampleBoy6m_def sampleBoy1y_def sampleGirl6m_def
      recordMonths_def convertToMonths_def)

section \<open>Gender invariant\<close>

text \<open>
  C8: whenever \<open>findMatchByAge\<close>, \<open>findMatchByWeightAndHeight\<close> or \<open>findClosestMatch\<close>
  returns a record, the dataset is loaded, the record is one of its elements, and the
  record's gender is the requested one.
\<close>

theorem C8_gender_invariant:
  "(findMatchByAge cd g a u = Inr r \<longrightarrow> (\<exists>d. cd = Some d \<and> r \<in> set d) \<and> gender r = g)
 \<and> (findMatchByWeightAndHeight cd g w hh = Inr r \<longrightarrow> (\<exists>d. cd = Some d \<and> r \<in> set d) \<and> gender r = g)
 \<and> (findClosestMatch cd g w aa hh = Inr r \<longrightarrow> (\<exists>d. cd = Some d \<and> r \<in> set d) \<and> gender r = g)"
proof -
  have "(\<exists>d. cd = Some d \<and> r \<in> set d) \<and> gender r = g"
    if "\<exists>d. cd = Some d \<and> r \<in> set (candidatesFor d g)"
    using that by (auto simp: candidatesFor_def)
  then show ?thesis
    using findMatchByAge_Inr findMatchByWeightAndHeight_Inr findClosestMatch_Inr by blast
qed

theorem C8_gender_invariant_witness:
  "findMatchByAge (Some sampleData) ''BOY'' 7 ''MONTH'' = Inr sampleBoy6m
 \<and> findMatchByWeightAndHeight (Some sampleData) ''BOY'' 8 (Some 70) = Inr sampleBoy6m
 \<and> findClosestMatch (Some sampleData) ''BOY'' 8 (Some 6) None = Inr sampleBoy6m
 \<and> sampleBoy6m \<in> set sampleData \<and> gender sampleBoy6m = ''BOY''"
proof -
  have 1: "findMatchByAge (Some sampleData) ''BOY'' 7 ''MONTH'' = Inr sampleBoy6m"
    by (simp add: findMatchByAge_def sampleData_def sampleBoy6m_def sampleBoy1y_def
        sampleGirl6m_def ageStep_def recordMonths_def convertToMonths_def Let_def)
  have 2: "findMatchByWeightAndHeight (Some sampleData) ''BOY'' 8 (Some 70) = Inr sampleBoy6m"
    by (simp add: findMatchByWeightAndHeight_def sampleData_def sampleBoy6m_def sampleBoy1y_def
        sampleGirl6m_def weightStep_def closestByWeightScan_def weightGroupOf_def
        recordMonths_def convertToMonths_def Let_def)
  have 3: "findClosestMatch (Some sampleData) ''BOY'' 8 (Some 6) None = Inr sampleBoy6m"
    by (simp add: findClosestMatch_def sampleData_def sampleBoy6m_def sampleBoy1y_def
        sampleGirl6m_def weightStep_def closestByWeightScan_def weightGroupOf_def
        recordMonths_def convertToMonths_def Let_def)
  from 1 2 3 C8_gender_invariant [where cd = "Some sampleData" and g = "''BOY''" and r = sampleBoy6m]
  show ?thesis by simp
qed

section \<open>Height refinement inside the weight group\<close>

lemma groupStep_None:
  "groupStep m v None st r =
     (if \<bar>metricOf m r - v\<bar> < fst st then (\<bar>metricOf m r - v\<bar>, r) else st)"
  by (cases st) (simp add: groupStep_def truthyString_def Let_def)

lemma group_scan_first:
  assumes "fst st = \<bar>metricOf m (snd st) - v\<bar>"
  shows "\<exists>pre post. snd st # xs = pre @ snd (foldl (groupStep m v None) st xs) # post
           \<and> (\<forall>x\<in>set pre. \<bar>metricOf m (snd (foldl (groupStep m v None) st xs)) - v\<bar> < \<bar>metricOf m x - v\<bar>)
           \<and> (\<forall>x\<in>set post. \<bar>metricOf m (snd (foldl (groupStep m v None) st xs)) - v\<bar> \<le> \<bar>metricOf m x - v\<bar>)"
  using assms
proof (induction xs arbitrary: st)
  case Nil
  have "snd st # [] = [] @ snd st # []" by simp
  then show ?case by fastforce
next
  case (Cons x xs)
  let ?k = "\<lambda>y. \<bar>metricOf m y - v\<bar>"
  let ?st' = "groupStep m v None st x"
  let ?r = "snd (foldl (groupStep m v None) ?st' xs)"
  have fold: "foldl (groupStep m v None) st (x # xs) = foldl (groupStep m v None) ?st' xs"
    by simp
  show ?case
  proof (cases "?k x < fst st")
    case True
    then have st': "?st' = (?k x, x)" by (simp add: groupStep_None)
    then have "fst ?st' = ?k (snd ?st')" by simp
    from Cons.IH [OF this] obtain pre post where
      d: "snd ?st' # xs = pre @ ?r # post"
      and p1: "\<forall>y\<in>set pre. ?k ?r < ?k y"
      and p2: "\<forall>y\<in>set post. ?k ?r \<le> ?k y"
      by blast
    have "x \<in> set (pre @ ?r # post)" using d st' by (metis list.set_intros(1) snd_conv)
    then have "?k ?r \<le> ?k x" using p1 p2 by auto
    then have lt: "?k ?r < ?k (snd st)" using True Cons.prems by simp
    have "snd st # x # xs = (snd st # pre) @ ?r # post" using d st' by simp
    moreover have "\<forall>y\<in>set (snd st # pre). ?k ?r < ?k y" using p1 lt by simp
    ultimately show ?thesis unfolding fold using p2 by blast
  next
    case False
    then have st': "?st' = st" by (simp add: groupStep_None)
    from Cons.IH [OF Cons.prems] obtain pre post where
      d: "snd st # xs = pre @ snd (foldl (groupStep m v None) st xs) # post"
      and p1: "\<forall>y\<in>set pre. ?k (snd (foldl (groupStep m v None) st xs)) < ?k y"
      and p2: "\<forall>y\<in>set post. ?k (snd (foldl (groupStep m v None) st xs)) \<le> ?k y"
      by blast
    let ?s = "snd (foldl (groupStep m v None) st xs)"
    have r: "?r = ?s" using st' by simp
    show ?thesis
    proof (cases pre)
      case Nil
      then have e: "?s = snd st" "post = xs" using d by simp_all
      have "?k ?s \<le> ?k x" using False e Cons.prems by simp
      then have "\<forall>y\<in>set (x # xs). ?k ?s \<le> ?k y" using p2 e by simp
      moreover have "snd st # x # xs = [] @ ?s # (x # xs)" using e by simp
      ultimately show ?thesis unfolding fold r
        by (metis empty_iff list.set(1))
    next
      case (Cons p ps)
      then have e: "p = snd st" "xs = ps @ ?s # post" using d by simp_all
      have "?k ?s < ?k (snd st)" using p1 Cons e by simp
      then have "?k ?s < ?k x" using False Cons.prems by simp
      then have "\<forall>y\<in>set (snd st # x # ps). ?k ?s < ?k y" using p1 Cons e by simp
      moreover have "snd st # x # xs = (snd st # x # ps) @ ?s # post" using e by simp
      ultimately show ?thesis unfolding fold r using p2 by blast
    qed
  qed
qed

lemma findClosestInGroup_first:
  assumes "grp \<noteq> []"
  shows "\<exists>r pre post. findClosestInGroup grp m v None = Inr r \<and> grp = pre @ r # post
           \<and> (\<forall>x\<in>set pre. \<bar>metricOf m r - v\<bar> < \<bar>metricOf m x - v\<bar>)
           \<and> (\<forall>x\<in>set post. \<bar>metricOf m r - v\<bar> \<le> \<bar>metricOf m x - v\<bar>)"
proof -
  obtain c0 cs where g: "grp = c0 # cs" using assms by (cases grp) auto
  let ?st = "(\<bar>metricOf m c0 - v\<bar>, c0)"
  have "groupStep m v None ?st c0 = ?st" by (simp add: groupStep_None)
  then have res: "findClosestInGroup grp m v None = Inr (snd (foldl (groupStep m v None) ?st cs))"
    using g by (simp add: findClosestInGroup_def)
  have "fst ?st = \<bar>metricOf m (snd ?st) - v\<bar>" by simp
  from group_scan_first [OF this, of cs] show ?thesis
    using res g by (metis snd_conv)
qed

text \<open>
  C3 (as stated, refuted): the claim says that a tie on the height distance inside the
  weight group is broken towards the larger height. \<open>findMatchByWeightAndHeight\<close> calls
  \<open>findClosestInGroup\<close> without a \<^verbatim>\<open>unitMetric\<close>, so the tie branch is never taken and the
  first of two equally distant members stays selected: here the record of height 60, not
  the one of height 70.
\<close>

theorem C3_counterexample:
  "findMatchByWeightAndHeight (Some [tieBoy4m, tieBoy5m]) ''BOY'' 6 (Some 65) = Inr tieBoy4m
 \<and> weightGroupOf [tieBoy4m, tieBoy5m] (closestByWeightScan tieBoy4m [tieBoy4m, tieBoy5m] 6)
     = [tieBoy4m, tieBoy5m]
 \<and> \<bar>height tieBoy4m - 65\<bar> = \<bar>height tieBoy5m - 65\<bar>
 \<and> height tieBoy4m < height tieBoy5m"
  by (simp add: findMatchByWeightAndHeight_def findClosestInGroup_def groupStep_def
      truthyString_def closestByWeightScan_def weightStep_def weightGroupOf_def
      recordMonths_def convertToMonths_def tieBoy4m_def tieBoy5m_def Let_def)

text \<open>
  C3 (amended): in \<open>findMatchByWeightAndHeight\<close>, whenever a height is supplied and the
  weight group (the gender-filtered records within 0.1 kg of the record selected by
  weight) has more than one member, the returned record is a member of that group that
  minimises the height distance, and among several such members it is the first one in
  dataset order: every member before it is strictly farther, every member after it is at
  least as far.
\<close>

theorem C3_height_refinement_first_minimal:
  assumes cands: "candidatesFor d g = c0 # cs"
    and big: "length (weightGroupOf (c0 # cs) (closestByWeightScan c0 (c0 # cs) w)) > 1"
  shows "\<exists>r pre post.
           findMatchByWeightAndHeight (Some d) g w (Some h) = Inr r
         \<and> weightGroupOf (c0 # cs) (closestByWeightScan c0 (c0 # cs) w) = pre @ r # post
         \<and> (\<forall>x\<in>set (weightGroupOf (c0 # cs) (closestByWeightScan c0 (c0 # cs) w)).
               \<bar>height r - h\<bar> \<le> \<bar>height x - h\<bar>)
         \<and> (\<forall>x\<in>set pre. \<bar>height r - h\<bar> < \<bar>height x - h\<bar>)
         \<and> (\<forall>x\<in>set post. \<bar>height r - h\<bar> \<le> \<bar>height x - h\<bar>)"
proof -
  let ?grp = "weightGroupOf (c0 # cs) (closestByWeightScan c0 (c0 # cs) w)"
  have ne: "d \<noteq> []" using cands by (auto simp: candidatesFor_def)
  have call: "findMatchByWeightAndHeight (Some d) g w (Some h)
              = findClosestInGroup ?grp KeyHeight h None"
    using cands big ne by (simp add: findMatchByWeightAndHeight_def candidatesFor_def Let_def)
  have "?grp \<noteq> []" using big by auto
  from findClosestInGroup_first [OF this, of KeyHeight h] obtain r pre post where
    r: "findClosestInGroup ?grp KeyHeight h None = Inr r"
    and d: "?grp = pre @ r # post"
    and p1: "\<forall>x\<in>set pre. \<bar>height r - h\<bar> < \<bar>height x - h\<bar>"
    and p2: "\<forall>x\<in>set post. \<bar>height r - h\<bar> \<le> \<bar>height x - h\<bar>"
    by auto
  have "\<forall>x\<in>set (pre @ r # post). \<bar>height r - h\<bar> \<le> \<bar>height x - h\<bar>"
    using p1 p2 by auto
  then have mn: "\<forall>x\<in>set ?grp. \<bar>height r - h\<bar> \<le> \<bar>height x - h\<bar>"
    using d by simp
  have res: "findMatchByWeightAndHeight (Some d) g w (Some h) = Inr r"
    using call r by simp
  from res d mn p1 p2 show ?thesis
    by - (rule exI [of _ r], rule exI [of _ pre], rule exI [of _ post], intro conjI, assumption+)
qed

theorem C3_height_refinement_first_minimal_witness:
  "findMatchByWeightAndHeight (Some [sampleGirl6m, tieBoy4m, tieBoy5m]) ''BOY'' 6 (Some 68)
   = Inr tieBoy5m"
proof -
  have c: "candidatesFor [sampleGirl6m, tieBoy4m, tieBoy5m] ''BOY'' = tieBoy4m # [tieBoy5m]"
    by (simp add: candidatesFor_def sampleGirl6m_def tieBoy4m_def tieBoy5m_def)
  have g: "weightGroupOf (tieBoy4m # [tieBoy5m]) (closestByWeightScan tieBoy4m (tieBoy4m # [tieBoy5m]) 6)
           = [tieBoy4m, tieBoy5m]"
    by (simp add: closestByWeightScan_def weightStep_def weightGroupOf_def
        recordMonths_def convertToMonths_def tieBoy4m_def tieBoy5m_def Let_def)
  have b: "length (weightGroupOf (tieBoy4m # [tieBoy5m])
                     (closestByWeightScan tieBoy4m (tieBoy4m # [tieBoy5m]) 6)) > 1"
    by (simp only: g) simp
  from C3_height_refinement_first_minimal [OF c b, of 68] obtain r pre post where
    res: "findMatchByWeightAndHeight (Some [sampleGirl6m, tieBoy4m, tieBoy5m]) ''BOY'' 6 (Some 68) = Inr r"
    and dec: "[tieBoy4m, tieBoy5m] = pre @ r # post"
    and mn: "\<forall>x\<in>set [tieBoy4m, tieBoy5m]. \<bar>height r - 68\<bar> \<le> \<bar>height x - 68\<bar>"
    unfolding g by blast
  have "r \<in> set (pre @ r # post)" by simp
  then have "r \<in> set [tieBoy4m, tieBoy5m]" by (simp only: dec)
  then have "r = tieBoy4m \<or> r = tieBoy5m" by simp
  moreover have "r \<noteq> tieBoy4m"
  proof
    assume "r = tieBoy4m"
    then have "\<bar>height tieBoy4m - 68\<bar> \<le> \<bar>height tieBoy5m - 68\<bar>" using mn by simp
    then show False by (simp add: tieBoy4m_def tieBoy5m_def)
  qed
  ultimately show ?thesis using res by simp
qed

section \<open>The deviation-to-score mapping\<close>

lemma mathRound_mono: "x \<le> y \<Longrightarrow> mathRound x \<le> mathRound y"
  unfolding mathRound_def by (rule floor_mono) simp

lemma closenessOfDeviation_antimono:
  "d1 \<le> d2 \<Longrightarrow> closenessOfDeviation d2 \<le> closenessOfDeviation d1"
  by (auto simp: closenessOfDeviation_def field_simps split: if_splits)

lemma deviationScore_antimono:
  assumes "d1 \<le> d2"
  shows "deviationScore d2 \<le> deviationScore d1"
  unfolding deviationScore_def
proof (rule mathRound_mono, rule max.mono)
  show "(0::real) \<le> 0" by simp
  show "closenessOfDeviation d2 \<le> closenessOfDeviation d1"
    using assms by (rule closenessOfDeviation_antimono)
qed

lemma mathRound_of_int: "mathRound (of_int n) = n"
  unfolding mathRound_def by linarith

lemma calculateCloseness_weight_only:
  "weight r \<noteq> 0 \<Longrightarrow>
   calculateCloseness w None (Some r) = Score (deviationScore (\<bar>w - weight r\<bar> / weight r * 100))"
  by (simp add: calculateCloseness_def percentDeviation_def Let_def)

lemma calculateCloseness_with_height:
  "weight r \<noteq> 0 \<Longrightarrow> height r \<noteq> 0 \<Longrightarrow>
   calculateCloseness w (Some h) (Some r) =
     Score (deviationScore ((\<bar>w - weight r\<bar> / weight r * 100 + \<bar>h - height r\<bar> / height r * 100) / 2))"
  by (simp add: calculateCloseness_def percentDeviation_def Let_def)

lemma closenessOfDeviation_lipschitz:
  "\<bar>closenessOfDeviation d1 - closenessOfDeviation d2\<bar> \<le> 3 / 2 * \<bar>d1 - d2\<bar>"
  by (auto simp: closenessOfDeviation_def field_simps abs_if split: if_splits)

lemma closenessOfDeviation_isCont: "isCont closenessOfDeviation d"
proof -
  have "\<exists>s>0. \<forall>x. x \<noteq> d \<and> norm (x - d) < s \<longrightarrow>
          norm (closenessOfDeviation x - closenessOfDeviation d) < r" if "0 < r" for r :: real
  proof (intro exI conjI allI impI)
    show "0 < r * 2 / 3" using that by simp
    fix x assume "x \<noteq> d \<and> norm (x - d) < r * 2 / 3"
    then have "3 / 2 * \<bar>x - d\<bar> < r" by simp
    then show "norm (closenessOfDeviation x - closenessOfDeviation d) < r"
      using closenessOfDeviation_lipschitz [of x d] by simp
  qed
  then show ?thesis unfolding isCont_def LIM_eq by blast
qed

lemma mathRound_eq: "of_int n - 1 / 2 \<le> x \<Longrightarrow> x < of_int n + 1 / 2 \<Longrightarrow> mathRound x = n"
  unfolding mathRound_def by linarith

lemma deviationScore_near_10: "\<bar>d - 10\<bar> \<le> 3 / 10 \<Longrightarrow> deviationScore d = 100"
  unfolding deviationScore_def
  by (rule mathRound_eq) (auto simp: closenessOfDeviation_def field_simps abs_if split: if_splits)

lemma deviationScore_near_20: "\<bar>d - 20\<bar> \<le> 3 / 10 \<Longrightarrow> deviationScore d = 90"
  unfolding deviationScore_def
  by (rule mathRound_eq) (auto simp: closenessOfDeviation_def field_simps abs_if split: if_splits)

lemma deviationScore_near_30: "\<bar>d - 30\<bar> \<le> 3 / 10 \<Longrightarrow> deviationScore d = 75"
  unfolding deviationScore_def
  by (rule mathRound_eq) (auto simp: closenessOfDeviation_def field_simps abs_if split: if_splits)

lemma deviationScore_near_40: "\<bar>d - 40\<bar> \<le> 3 / 10 \<Longrightarrow> deviationScore d = 60"
  unfolding deviationScore_def
  by (rule mathRound_eq) (auto simp: closenessOfDeviation_def field_simps abs_if split: if_splits)

text \<open>
  C5: the deviation-to-score mapping of \<open>calculateCloseness\<close> is monotonically
  non-increasing (a larger deviation never scores higher), and at the breakpoints it takes
  the values \<open>score(10) = 100\<close>, \<open>score(20) = 90\<close>, \<open>score(30) = 75\<close> and \<open>score(40) = 60\<close>.
  It is continuous there: the unrounded closeness is a continuous function of the
  deviation (it changes by at most 1.5 points per percent, so adjacent pieces meet), and
  the rounded score does not jump at a breakpoint, being constant within 0.3 percent on
  either side of each.
\<close>

theorem C5_deviation_score_monotone:
  "(d1 < d2 \<longrightarrow> deviationScore d2 \<le> deviationScore d1)
 \<and> deviationScore 10 = 100 \<and> deviationScore 20 = 90
 \<and> deviationScore 30 = 75 \<and> deviationScore 40 = 60
 \<and> isCont closenessOfDeviation d
 \<and> \<bar>closenessOfDeviation d1 - closenessOfDeviation d2\<bar> \<le> 3 / 2 * \<bar>d1 - d2\<bar>
 \<and> (\<bar>d - 10\<bar> \<le> 3 / 10 \<longrightarrow> deviationScore d = 100)
 \<and> (\<bar>d - 20\<bar> \<le> 3 / 10 \<longrightarrow> deviationScore d = 90)
 \<and> (\<bar>d - 30\<bar> \<le> 3 / 10 \<longrightarrow> deviationScore d = 75)
 \<and> (\<bar>d - 40\<bar> \<le> 3 / 10 \<longrightarrow> deviationScore d = 60)"
proof -
  have v: "deviationScore 10 = 100" "deviationScore 20 = 90"
    "deviationScore 30 = 75" "deviationScore 40 = 60"
    by (simp_all add: deviationScore_def closenessOfDeviation_def mathRound_def)
  show ?thesis
    using deviationScore_antimono [of d1 d2] v closenessOfDeviation_isCont [of d]
      closenessOfDeviation_lipschitz [of d1 d2]
      deviationScore_near_10 [of d] deviationScore_near_20 [of d]
      deviationScore_near_30 [of d] deviationScore_near_40 [of d]
    by simp
qed

theorem C5_deviation_score_monotone_witness:
  "(15::real) < 25 \<and> deviationScore 25 \<le> deviationScore 15
 \<and> \<bar>(101 / 10 :: real) - 10\<bar> \<le> 3 / 10 \<and> deviationScore (101 / 10) = 100
 \<and> isCont closenessOfDeviation 10"
  using C5_deviation_score_monotone [of 15 25 "101 / 10"]
    C5_deviation_score_monotone [of 15 25 10] by simp

section \<open>Validation messages\<close>

text \<open>
  C9: \<open>validateInput\<close> returns the empty list exactly when the gender is non-empty, the
  weight is a number between 0.01 and 150, the age is non-empty, and the height is absent
  (\<^verbatim>\<open>null\<close>, \<^verbatim>\<open>undefined\<close> or the empty string) or a number between 0.01 and 220; and
  each violated rule puts its own message into the list: the gender message appears
  exactly when the gender rule is violated, one of the two weight messages exactly when
  the weight rule is, the age message exactly when the age rule is, and one of the two
  height messages exactly when the height rule is.
\<close>

theorem C9_validateInput_empty_iff_valid:
  "(validateInput g w h a = [] \<longleftrightarrow>
      truthyString g
    \<and> (\<exists>x. w = JNum x \<and> 0.01 \<le> x \<and> x \<le> 150)
    \<and> truthyString a
    \<and> (h = JNull \<or> h = JUndefined \<or> h = JEmptyString \<or> (\<exists>x. h = JNum x \<and> 0.01 \<le> x \<and> x \<le> 220)))
 \<and> (''Gender is required'' \<in> set (validateInput g w h a) \<longleftrightarrow> \<not> truthyString g)
 \<and> (''Weight is required'' \<in> set (validateInput g w h a)
      \<or> ''Weight must be between 0.01 and 150 kg'' \<in> set (validateInput g w h a)
      \<longleftrightarrow> \<not> (\<exists>x. w = JNum x \<and> 0.01 \<le> x \<and> x \<le> 150))
 \<and> (''Age is required'' \<in> set (validateInput g w h a) \<longleftrightarrow> \<not> truthyString a)
 \<and> (''Height must be a valid number'' \<in> set (validateInput g w h a)
      \<or> ''Height must be between 0.01 and 220 cm'' \<in> set (validateInput g w h a)
      \<longleftrightarrow> \<not> (h = JNull \<or> h = JUndefined \<or> h = JEmptyString \<or> (\<exists>x. h = JNum x \<and> 0.01 \<le> x \<and> x \<le> 220)))"
  by (cases w; cases h) (auto simp: validateInput_def)

theorem C9_validateInput_empty_iff_valid_witness:
  "validateInput (Some ''BOY'') (JNum 7.5) JNull (Some ''6-MONTH'') = []
 \<and> ''Gender is required'' \<in> set (validateInput None (JNum 7.5) (JNum 300) (Some ''6-MONTH''))
 \<and> ''Height must be between 0.01 and 220 cm''
      \<in> set (validateInput None (JNum 7.5) (JNum 300) (Some ''6-MONTH''))"
  using C9_validateInput_empty_iff_valid
      [where g = "Some ''BOY''" and w = "JNum 7.5" and h = JNull and a = "Some ''6-MONTH''"]
    C9_validateInput_empty_iff_valid
      [where g = None and w = "JNum 7.5" and h = "JNum 300" and a = "Some ''6-MONTH''"]
  by (simp add: truthyString_def validateInput_def)

section \<open>A falsy height counts as absent\<close>

text \<open>
  C10: when the height of the input is falsy (0, \<^verbatim>\<open>NaN\<close>, the empty string, \<^verbatim>\<open>null\<close>
  or \<^verbatim>\<open>undefined\<close>), \<open>formatResult\<close> gives the same result as for an input without a
  height; for any two reference records it returns a result, whose closeness is the score
  of the weight deviation alone and whose reported height is \<^verbatim>\<open>null\<close>.
\<close>

theorem C10_falsy_height_is_absent:
  assumes "falsy (inHeight inp)"
  shows "formatResult inp am wm = formatResult (inp\<lparr>inHeight := JNull\<rparr>) am wm
       \<and> formatResult inp am wm = formatResult (inp\<lparr>inHeight := JUndefined\<rparr>) am wm
       \<and> (\<forall>res. formatResult inp am wm = Inr res \<longrightarrow>
             closeness res = calculateCloseness (inWeight inp) None am
           \<and> (\<forall>r. am = Some r \<longrightarrow> closeness res = scoreOf (percentDeviation (inWeight inp) (weight r))))
       \<and> (\<exists>res. formatResult inp (Some a) (Some m) = Inr res
             \<and> formatResult (inp\<lparr>inHeight := JNull\<rparr>) (Some a) (Some m) = Inr res
             \<and> closeness res = calculateCloseness (inWeight inp) None (Some a)
             \<and> closeness res = scoreOf (percentDeviation (inWeight inp) (weight a))
             \<and> closenessLabel res = getClosenessLabel (closeness res)
             \<and> fHeight (input res) = None)"
proof -
  have t: "truthyNum (inHeight inp) = None"
    using assms by (cases "inHeight inp") simp_all
  have 1: "formatResult inp am wm = formatResult (inp\<lparr>inHeight := JNull\<rparr>) am wm
       \<and> formatResult inp am wm = formatResult (inp\<lparr>inHeight := JUndefined\<rparr>) am wm
       \<and> (\<forall>res. formatResult inp am wm = Inr res \<longrightarrow>
             closeness res = calculateCloseness (inWeight inp) None am
           \<and> (\<forall>r. am = Some r \<longrightarrow> closeness res = scoreOf (percentDeviation (inWeight inp) (weight r))))"
    by (auto simp: formatResult_def t calculateCloseness_def Let_def split: option.splits)
  have 2: "\<exists>res. formatResult inp (Some a) (Some m) = Inr res
             \<and> formatResult (inp\<lparr>inHeight := JNull\<rparr>) (Some a) (Some m) = Inr res
             \<and> closeness res = calculateCloseness (inWeight inp) None (Some a)
             \<and> closeness res = scoreOf (percentDeviation (inWeight inp) (weight a))
             \<and> closenessLabel res = getClosenessLabel (closeness res)
             \<and> fHeight (input res) = None"
    by (simp add: formatResult_def t calculateCloseness_def Let_def)
  from 1 2 show ?thesis by blast
qed

theorem C10_falsy_height_is_absent_witness:
  "falsy (JNum 0)
 \<and> (\<exists>res. formatResult \<lparr>inGender = ''BOY'', inWeight = 8, inHeight = JNum 0, inAge = None\<rparr>
              (Some sampleBoy6m) (Some sampleBoy1y) = Inr res
         \<and> formatResult \<lparr>inGender = ''BOY'', inWeight = 8, inHeight = JNull, inAge = None\<rparr>
              (Some sampleBoy6m) (Some sampleBoy1y) = Inr res
         \<and> closeness res = Score 100
         \<and> closeness res = calculateCloseness 8 None (Some sampleBoy6m))"
proof -
  have s: "scoreOf (percentDeviation 8 (weight sampleBoy6m)) = Score 100"
    by (simp add: percentDeviation_def sampleBoy6m_def deviationScore_def
        closenessOfDeviation_def mathRound_def)
  have f: "falsy (inHeight \<lparr>inGender = ''BOY'', inWeight = 8, inHeight = JNum 0, inAge = None\<rparr>)"
    by simp
  from C10_falsy_height_is_absent [OF f, of "Some sampleBoy6m" "Some sampleBoy1y" sampleBoy6m sampleBoy1y]
  show ?thesis using s by auto
qed

text \<open>A height that is not falsy does enter the score: here it lowers 100 to 96.\<close>

lemma truthy_height_is_scored:
  "\<exists>res. formatResult \<lparr>inGender = ''BOY'', inWeight = 8, inHeight = JNum 50, inAge = None\<rparr>
            (Some sampleBoy6m) (Some sampleBoy1y) = Inr res
        \<and> closeness res = Score 96"
  by (simp add: formatResult_def calculateCloseness_def percentDeviation_def sampleBoy6m_def
      deviationScore_def closenessOfDeviation_def mathRound_def Let_def)

section \<open>Age used for the z-score lookup\<close>

text \<open>
  C4 (the code at the failing input): 120 months resolve to the adolescent stage, whose
  entries are indexed by years. \<open>getZScoreCurves\<close> looks the entry up with the age 120
  itself and finds nothing, although the entry for 10 years is there and is found when the
  same age is given in years; \<open>getMedianHeightForAge\<close> converts the months to years and
  finds it.
\<close>

theorem C4_month_age_not_converted:
  "determineGrowthStage 120 ''MONTH'' = Adolescent
 \<and> getZScoreCurves (Some sampleZScoreData) ''BOY'' 120 ''MONTH'' ''bmi'' = Inr None
 \<and> getZScoreCurves (Some sampleZScoreData) ''BOY'' 10 ''YEAR'' ''bmi'' = Inr (Some sampleBmiCurves)
 \<and> getMedianHeightForAge (Some sampleZScoreData) ''BOY'' 120 ''MONTH'' = Some 137.8"
  by (simp add: getZScoreCurves_def getMedianHeightForAge_def determineGrowthStage_def
      convertToMonths_def dataSourceOf_def zScorePropOf_def mathRound_def
      sampleZScoreData_def sampleAdolescentEntry_def Let_def)

end
